theory Spec2Isabelle
  imports Main
begin

section \<open>Data\<close>

text \<open>
  The payload of a webhook delivery is the value the JSON decoder returns: Python's
  \<open>None\<close>, \<open>bool\<close>, \<open>int\<close>, \<open>float\<close>, \<open>str\<close>, \<open>list\<close> and \<open>dict\<close>. A float is carried as
  an opaque text; a dict is an association list read with \<open>map_of\<close>.
\<close>

datatype json =
    JNull
  | JBool bool
  | JInt int
  | JFloat string
  | JStr string
  | JArr "json list"
  | JObj "(string \<times> json) list"

text \<open>
  Every exception of a run is a value. \<open>KeyError\<close>, \<open>TypeError\<close> and \<open>ValueError\<close> are the
  Python exceptions raised by the code of \<open>src/gitbot/__main__.py\<close> itself (a subscript,
  the \<open>int\<close> conversion); \<open>AuthenticationError\<close>, \<open>ParseError\<close> and \<open>TransportError\<close> are
  the error kinds the specification gives to the libraries the file calls.
\<close>

datatype error =
    KeyError string
  | TypeError
  | ValueError
  | AuthenticationError
  | ParseError
  | TransportError

text \<open>
  What the specification calls a \<open>SchemaError\<close> (a field the handler needs is missing
  from the payload) is, in the Python source, the exception of the failing subscript:
  \<open>KeyError\<close> on a dict without the key, \<open>TypeError\<close> on a value that is not a dict.
\<close>

fun schema_error :: "error \<Rightarrow> bool" where
  "schema_error (KeyError k) = True"
| "schema_error TypeError = True"
| "schema_error e = False"

text \<open>
  Modelled from the spec: the \<open>Event\<close> class (\<open>gidgethub.sansio\<close>), which the source file
  imports and does not contain. The specification's data model gives an event a kind,
  an action that may be absent, a delivery id and a payload; the source reads the
  payload as \<open>event.data\<close>.
\<close>

record event =
  kind :: string
  action :: "string option"
  delivery_id :: string
  data :: json

text \<open>
  The API client \<open>gh_aiohttp.GitHubAPI(session, "dandelion-vn", oauth_token=oauth_token)\<close>
  that \<open>main\<close> builds for each request, and one call \<open>git.post(url, data=...)\<close> made on it.
\<close>

record api_client =
  requester :: string
  oauth_token :: "string option"

record post_call =
  client :: api_client
  target :: json
  body :: json

text \<open>
  What the Python runtime, the libraries and the network supply to the code of the file;
  none of it is code of the repository, so it is a parameter of every definition.
  \<^item> \<open>hmac_signature secret body\<close>: the signature header value that matches \<open>body\<close> under
    \<open>secret\<close>;
  \<^item> \<open>decode_body headers body\<close>: the decoded payload, \<open>None\<close> where the body is not valid
    structured data;
  \<^item> \<open>py_str v\<close>: the built-in \<open>str\<close> of a payload value that is not itself a \<open>str\<close>;
  \<^item> \<open>py_int s\<close>: the built-in \<open>int\<close> on a \<open>str\<close>, \<open>None\<close> where it raises \<open>ValueError\<close>;
  \<^item> \<open>post_raises c\<close>: the exception with which the outbound call \<open>c\<close> ends, \<open>None\<close>
    where it returns.
\<close>

record runtime =
  hmac_signature :: "string \<Rightarrow> string \<Rightarrow> string"
  decode_body :: "(string \<Rightarrow> string option) \<Rightarrow> string \<Rightarrow> json option"
  py_str :: "json \<Rightarrow> string"
  py_int :: "string \<Rightarrow> int option"
  post_raises :: "post_call \<Rightarrow> error option"

text \<open>
  The observable course of a piece of code: the handlers the router invoked, the outbound
  calls made, in order, and how it ended (\<open>Inl\<close> the exception that propagated out of it).
\<close>

record ('h, 'a) run =
  invoked :: "'h list"
  posts :: "post_call list"
  outcome :: "error + 'a"

section \<open>The handler\<close>

text \<open>
  \<open>v[k]\<close> for a string key \<open>k\<close>: a \<open>dict\<close> raises \<open>KeyError\<close> where the key is missing; a
  \<open>str\<close>, a \<open>list\<close>, a number, a \<open>bool\<close> and \<open>None\<close> raise \<open>TypeError\<close>.
\<close>

fun subscript :: "json \<Rightarrow> string \<Rightarrow> error + json" where
  "subscript (JObj kvs) k = (case map_of kvs k of None \<Rightarrow> Inl (KeyError k) | Some v \<Rightarrow> Inr v)"
| "subscript v k = Inl TypeError"

text \<open>The replacement field \<open>{author}\<close> of the f-string: a \<open>str\<close> is inserted as it is.\<close>

fun format_value :: "runtime \<Rightarrow> json \<Rightarrow> string" where
  "format_value rt (JStr s) = s"
| "format_value rt v = py_str rt v"

definition message_for :: "string \<Rightarrow> string" where
  "message_for author =
     ''Thanks for the report @'' @ author @ ''! '' @ ''I will look into it ASAP! (I'm a bot).''"

text \<open>\<open>await git.post(url, data=d)\<close>: the call is made, then it returns or raises.\<close>

definition post :: "runtime \<Rightarrow> api_client \<Rightarrow> json \<Rightarrow> json \<Rightarrow> post_call list \<times> (error + unit)" where
  "post rt git url d =
     (let c = \<lparr>client = git, target = url, body = d\<rparr>
      in ([c], case post_raises rt c of None \<Rightarrow> Inr () | Some e \<Rightarrow> Inl e))"

text \<open>
  \<open>issue_opened_event(event, git)\<close>, lines 65 to 95: the two values are read from the
  payload in the order of the source, the first failing subscript ends the handler.
\<close>

definition issue_opened_event ::
  "runtime \<Rightarrow> event \<Rightarrow> api_client \<Rightarrow> post_call list \<times> (error + unit)" where
  "issue_opened_event rt ev git =
     (case subscript (data ev) ''issue'' of
        Inl e \<Rightarrow> ([], Inl e)
      | Inr issue \<Rightarrow>
     (case subscript issue ''comments_url'' of
        Inl e \<Rightarrow> ([], Inl e)
      | Inr url \<Rightarrow>
     (case subscript (data ev) ''issue'' of
        Inl e \<Rightarrow> ([], Inl e)
      | Inr issue' \<Rightarrow>
     (case subscript issue' ''user'' of
        Inl e \<Rightarrow> ([], Inl e)
      | Inr user \<Rightarrow>
     (case subscript user ''login'' of
        Inl e \<Rightarrow> ([], Inl e)
      | Inr author \<Rightarrow>
          post rt git url (JObj [(''body'', JStr (message_for (format_value rt author)))]))))))"

section \<open>The router\<close>

text \<open>
  Modelled from the spec: the \<open>Router\<close> class (\<open>gidgethub.routing\<close>), of which the source
  holds one instance, \<open>router\<close>, and one registration. \<open>register(kind, action|None,
  handler)\<close> stores the association; \<open>dispatch\<close> looks the handler up by the exact
  (kind, action) pair and falls back to (kind, None) if there is no exact match; it does
  nothing when no key matches, and an exception of the handler propagates to the caller.
\<close>

type_synonym 'h routes = "((string \<times> string option) \<times> 'h) list"

definition register :: "string \<Rightarrow> string option \<Rightarrow> 'h \<Rightarrow> 'h routes \<Rightarrow> 'h routes" where
  "register k a h table = table @ [((k, a), h)]"

definition fetch :: "'h routes \<Rightarrow> event \<Rightarrow> 'h option" where
  "fetch table ev =
     (case map_of table (kind ev, action ev) of
        Some h \<Rightarrow> Some h
      | None \<Rightarrow> map_of table (kind ev, None))"

definition dispatch ::
  "('h \<Rightarrow> event \<Rightarrow> api_client \<Rightarrow> post_call list \<times> (error + unit)) \<Rightarrow>
   'h routes \<Rightarrow> event \<Rightarrow> api_client \<Rightarrow> ('h, unit) run" where
  "dispatch call table ev git =
     (case fetch table ev of
        None \<Rightarrow> \<lparr>invoked = [], posts = [], outcome = Inr ()\<rparr>
      | Some h \<Rightarrow>
          (case call h ev git of
             (ps, r) \<Rightarrow> \<lparr>invoked = [h], posts = ps, outcome = r\<rparr>))"

text \<open>
  The registrations of the source, lines 55 to 65: the one decorator
  \<open>@router.register("issues", action="opened")\<close> on \<open>issue_opened_event\<close>.
\<close>

datatype callback = Issue_opened_event

fun callback_body ::
  "runtime \<Rightarrow> callback \<Rightarrow> event \<Rightarrow> api_client \<Rightarrow> post_call list \<times> (error + unit)" where
  "callback_body rt Issue_opened_event = issue_opened_event rt"

definition router :: "callback routes" where
  "router = register ''issues'' (Some ''opened'') Issue_opened_event []"

section \<open>The endpoint\<close>

text \<open>
  The headers of a request, read by name: the transport compares header names without
  regard to case, so the map is keyed by the lower-case name.
\<close>

type_synonym headers = "string \<Rightarrow> string option"

record request =
  headers :: headers
  raw_body :: string

record response =
  status :: int

text \<open>\<open>os.environ\<close>: \<open>os.environ.get(name)\<close> is \<open>None\<close> for a variable that is not set.\<close>

type_synonym environ = "string \<Rightarrow> string option"

text \<open>
  Modelled from the spec: the signature verifier inside \<open>sansio.Event.from_http\<close>
  (\<open>gidgethub\<close>), which \<open>main\<close> calls and the source does not contain.
  \<open>verify(rawBody, headerSignature, secret)\<close> compares the keyed hash of the raw body
  under the secret with the signature of the request header and fails with
  \<open>AuthenticationError\<close> on a mismatch, on a missing signature and on a signature
  supplied with no secret. With the secret unset and no signature supplied it skips the
  check: the specification records that the source is permissive there (sections 4.1, 6
  and 9).
\<close>

definition verify :: "runtime \<Rightarrow> string \<Rightarrow> string option \<Rightarrow> string option \<Rightarrow> error + unit" where
  "verify rt b signature secret =
     (case signature of
        Some s \<Rightarrow>
          (case secret of
             None \<Rightarrow> Inl AuthenticationError
           | Some k \<Rightarrow> if s = hmac_signature rt k b then Inr () else Inl AuthenticationError)
      | None \<Rightarrow>
          (case secret of
             None \<Rightarrow> Inr ()
           | Some k \<Rightarrow> Inl AuthenticationError))"

text \<open>
  Modelled from the spec: the event parser inside \<open>sansio.Event.from_http\<close>.
  \<open>parse(headers, body)\<close> fails with \<open>ParseError\<close> when the body is not valid structured
  data or a required header is missing; the action is the \<open>action\<close> field of the payload.
  The header names are those of the upstream webhook convention.
\<close>

fun action_of :: "json \<Rightarrow> string option" where
  "action_of (JObj kvs) = (case map_of kvs ''action'' of Some (JStr a) \<Rightarrow> Some a | _ \<Rightarrow> None)"
| "action_of v = None"

definition parse :: "runtime \<Rightarrow> headers \<Rightarrow> string \<Rightarrow> error + event" where
  "parse rt hs b =
     (case decode_body rt hs b of
        None \<Rightarrow> Inl ParseError
      | Some d \<Rightarrow>
     (case hs ''x-github-event'' of
        None \<Rightarrow> Inl ParseError
      | Some k \<Rightarrow>
     (case hs ''x-github-delivery'' of
        None \<Rightarrow> Inl ParseError
      | Some i \<Rightarrow> Inr \<lparr>kind = k, action = action_of d, delivery_id = i, data = d\<rparr>)))"

definition from_http :: "runtime \<Rightarrow> headers \<Rightarrow> string \<Rightarrow> string option \<Rightarrow> error + event" where
  "from_http rt hs b secret =
     (case verify rt b (hs ''x-hub-signature'') secret of
        Inl e \<Rightarrow> Inl e
      | Inr u \<Rightarrow> parse rt hs b)"

text \<open>
  \<open>main(request)\<close>, lines 99 to 168, under the \<open>os.environ\<close> of the moment the request is
  handled: the body is read, the secret and the token are read from the environment, the
  event is built, a client is built and the event dispatched; the response with status
  200 is returned only when nothing raised before. The client session opened around the
  dispatch carries nothing of the request and is not part of the model.
\<close>

definition main :: "runtime \<Rightarrow> environ \<Rightarrow> request \<Rightarrow> (callback, response) run" where
  "main rt env req =
     (let b = raw_body req;
          secret = env ''GH_SECRET'';
          token = env ''GH_AUTH''
      in case from_http rt (headers req) b secret of
           Inl e \<Rightarrow> \<lparr>invoked = [], posts = [], outcome = Inl e\<rparr>
         | Inr ev \<Rightarrow>
             (let gh = \<lparr>requester = ''dandelion-vn'', oauth_token = token\<rparr>;
                  d = dispatch (callback_body rt) router ev gh
              in case outcome d of
                   Inl e \<Rightarrow> \<lparr>invoked = invoked d, posts = posts d, outcome = Inl e\<rparr>
                 | Inr u \<Rightarrow>
                     \<lparr>invoked = invoked d, posts = posts d, outcome = Inr \<lparr>status = 200\<rparr>\<rparr>))"

text \<open>
  The \<open>__main__\<close> block, lines 171 to 178: \<open>Inr port\<close> means that \<open>web.run_app(app,
  port=port)\<close> is reached with that port, \<open>Inl\<close> that the block raised before it.
\<close>

definition startup :: "runtime \<Rightarrow> environ \<Rightarrow> error + int option" where
  "startup rt env =
     (case env ''PORT'' of
        None \<Rightarrow> Inr None
      | Some p \<Rightarrow>
          (case py_int rt p of
             None \<Rightarrow> Inl ValueError
           | Some n \<Rightarrow> Inr (Some n)))"

text \<open>
  \<open>main\<close> as one step of the process, with \<open>os.environ\<close> as its state: the two calls of
  \<open>os.environ.get\<close> read it, and no statement of the source assigns to it, so the step
  hands it on as it found it.
\<close>

definition main_step ::
  "runtime \<Rightarrow> environ \<Rightarrow> request \<Rightarrow> (callback, response) run \<times> environ" where
  "main_step rt env req = (main rt env req, env)"

text \<open>The requests of one process, in the order they are handled.\<close>

fun handle_requests ::
  "runtime \<Rightarrow> environ \<Rightarrow> request list \<Rightarrow> (callback, response) run list \<times> environ" where
  "handle_requests rt env [] = ([], env)"
| "handle_requests rt env (req # reqs) =
     (case main_step rt env req of
        (r, env') \<Rightarrow>
          (case handle_requests rt env' reqs of
             (rs, env'') \<Rightarrow> (r # rs, env'')))"

text \<open>
  One process: the \<open>__main__\<close> block under the environment of the start, then the requests,
  each under the \<open>os.environ\<close> the step before it left.
\<close>

definition serve ::
  "runtime \<Rightarrow> environ \<Rightarrow> request list \<Rightarrow> error + (callback, response) run list" where
  "serve rt env0 reqs =
     (case startup rt env0 of
        Inl e \<Rightarrow> Inl e
      | Inr port \<Rightarrow> Inr (fst (handle_requests rt env0 reqs)))"

section \<open>Paths and sample values\<close>

text \<open>
  \<open>path v [k1, ..., kn]\<close> is the value at \<open>v.k1.....kn\<close> when every step is a key of a dict,
  and \<open>None\<close> when the payload lacks that field.
\<close>

fun path :: "json \<Rightarrow> string list \<Rightarrow> json option" where
  "path v [] = Some v"
| "path (JObj kvs) (k # ks) = (case map_of kvs k of None \<Rightarrow> None | Some v \<Rightarrow> path v ks)"
| "path v (k # ks) = None"

text \<open>
  The scenario of the specification: the payload of an opened issue reported by \<open>alice\<close>,
  and a runtime for the examples, in which the decoder knows two bodies, the signature
  function is a stand-in for the keyed hash, \<open>str\<close> is right on \<open>None\<close> and on a \<open>bool\<close>, and no
  outbound call fails.
\<close>

definition scenario_body :: string where
  \<open>scenario_body = ''{"action":"opened","issue":{"comments_url":"https://api.example/issues/1/comments","user":{"login":"alice"}}}''\<close>

definition scenario_payload :: json where
  "scenario_payload =
     JObj [(''action'', JStr ''opened''),
           (''issue'', JObj [(''comments_url'', JStr ''https://api.example/issues/1/comments''),
                             (''user'', JObj [(''login'', JStr ''alice'')])])]"

text \<open>A second body, of an opened issue whose payload has no \<open>issue\<close> field.\<close>

definition bare_body :: string where
  \<open>bare_body = ''{"action":"opened"}''\<close>

definition bare_payload :: json where
  "bare_payload = JObj [(''action'', JStr ''opened'')]"

definition sample_runtime :: runtime where
  "sample_runtime =
     \<lparr>hmac_signature = (\<lambda>k b. ''sha1='' @ k @ b),
      decode_body = (\<lambda>hs b. if b = scenario_body then Some scenario_payload
                             else if b = bare_body then Some bare_payload else None),
      py_str = (\<lambda>v. case v of JNull \<Rightarrow> ''None'' | JBool c \<Rightarrow> (if c then ''True'' else ''False'')
                       | _ \<Rightarrow> ''?''),
      py_int = (\<lambda>s. if s = ''8080'' then Some 8080 else None),
      post_raises = (\<lambda>c. None)\<rparr>"

definition scenario_request :: "string \<Rightarrow> request" where
  "scenario_request k =
     \<lparr>headers = [''x-github-event'' \<mapsto> k, ''x-github-delivery'' \<mapsto> ''d1''],
      raw_body = scenario_body\<rparr>"

definition scenario_event :: "string \<Rightarrow> event" where
  "scenario_event k =
     \<lparr>kind = k, action = Some ''opened'', delivery_id = ''d1'', data = scenario_payload\<rparr>"

definition bare_request :: request where
  "bare_request =
     \<lparr>headers = [''x-github-event'' \<mapsto> ''issues'', ''x-github-delivery'' \<mapsto> ''d2''],
      raw_body = bare_body\<rparr>"

definition bare_event :: event where
  "bare_event =
     \<lparr>kind = ''issues'', action = Some ''opened'', delivery_id = ''d2'', data = bare_payload\<rparr>"

definition no_environ :: environ where
  "no_environ = (\<lambda>name. None)"

section \<open>Auxiliary facts\<close>

lemma subscript_path:
  "path v (k # ks) = Some x \<Longrightarrow> \<exists>w. subscript v k = Inr w \<and> path w ks = Some x"
  by (cases v) (auto split: option.splits)

lemma subscript_schema_error: "subscript v k = Inl e \<Longrightarrow> schema_error e"
  by (cases v) (auto split: option.splits)

lemma subscript_Inr_path: "subscript v k = Inr w \<Longrightarrow> path v (k # ks) = path w ks"
  by (cases v) (auto split: option.splits)

lemma fetch_router:
  "fetch router ev =
     (if kind ev = ''issues'' \<and> action ev = Some ''opened'' then Some Issue_opened_event else None)"
  by (simp add: fetch_def router_def register_def)

lemma handler_reads_fields:
  assumes "path (data ev) [''issue'', ''comments_url''] = Some u"
    and "path (data ev) [''issue'', ''user'', ''login''] = Some a"
  shows "issue_opened_event rt ev gh =
      post rt gh u (JObj [(''body'', JStr (message_for (format_value rt a)))])"
proof -
  from assms(1) obtain issue where i: "subscript (data ev) ''issue'' = Inr issue"
    and "path issue [''comments_url''] = Some u"
    using subscript_path by blast
  then obtain u' where u': "subscript issue ''comments_url'' = Inr u'" and "path u' [] = Some u"
    using subscript_path by blast
  then have uu: "u' = u" by simp
  from assms(2) i have "path issue [''user'', ''login''] = Some a"
    by (simp add: subscript_Inr_path)
  then obtain user where us: "subscript issue ''user'' = Inr user"
    and "path user [''login''] = Some a"
    using subscript_path by blast
  then obtain a' where a': "subscript user ''login'' = Inr a'" and "path a' [] = Some a"
    using subscript_path by blast
  then have aa: "a' = a" by simp
  show ?thesis
    by (simp add: issue_opened_event_def i u' uu us a' aa)
qed

lemma handler_fails:
  assumes "path (data ev) [''issue'', ''comments_url''] = None
         \<or> path (data ev) [''issue'', ''user'', ''login''] = None"
  shows "\<exists>e. schema_error e \<and> (\<forall>g. issue_opened_event rt ev g = ([], Inl e))"
proof (cases "subscript (data ev) ''issue''")
  case (Inl e)
  then show ?thesis
    by (auto simp: issue_opened_event_def dest: subscript_schema_error)
next
  case i: (Inr issue)
  show ?thesis
  proof (cases "subscript issue ''comments_url''")
    case (Inl e)
    with i show ?thesis
      by (auto simp: issue_opened_event_def dest: subscript_schema_error)
  next
    case u: (Inr url)
    then have "path (data ev) [''issue'', ''comments_url''] = Some url"
      using i by (simp add: subscript_Inr_path)
    with assms have n: "path issue [''user'', ''login''] = None"
      using i by (simp add: subscript_Inr_path)
    show ?thesis
    proof (cases "subscript issue ''user''")
      case (Inl e)
      with i u show ?thesis
        by (auto simp: issue_opened_event_def dest: subscript_schema_error)
    next
      case us: (Inr user)
      with n have "path user [''login''] = None"
        by (simp add: subscript_Inr_path)
      then obtain e where "subscript user ''login'' = Inl e"
        by (cases "subscript user ''login''") (auto simp: subscript_Inr_path)
      with i u us show ?thesis
        by (auto simp: issue_opened_event_def dest: subscript_schema_error)
    qed
  qed
qed



lemma scenario_from_http:
  "from_http sample_runtime (headers (scenario_request k)) (raw_body (scenario_request k)) None
     = Inr (scenario_event k)"
  by (simp add: from_http_def verify_def parse_def sample_runtime_def scenario_request_def
      scenario_event_def scenario_payload_def)

lemma bare_from_http:
  "from_http sample_runtime (headers bare_request) (raw_body bare_request) None = Inr bare_event"
  by (simp add: from_http_def verify_def parse_def sample_runtime_def bare_request_def
      bare_event_def bare_payload_def bare_body_def scenario_body_def)

lemma scenario_paths:
  "path scenario_payload [''issue'', ''comments_url'']
     = Some (JStr ''https://api.example/issues/1/comments'')"
  "path scenario_payload [''issue'', ''user'', ''login''] = Some (JStr ''alice'')"
  by (simp_all add: scenario_payload_def)

lemma scenario_main_issues:
  "main sample_runtime env (scenario_request ''issues'') =
     (case env ''GH_SECRET'' of
        Some k \<Rightarrow> \<lparr>invoked = [], posts = [], outcome = Inl AuthenticationError\<rparr>
      | None \<Rightarrow>
          \<lparr>invoked = [Issue_opened_event],
           posts = [\<lparr>client = \<lparr>requester = ''dandelion-vn'', oauth_token = env ''GH_AUTH''\<rparr>,
                     target = JStr ''https://api.example/issues/1/comments'',
                     body = JObj [(''body'', JStr (message_for ''alice''))]\<rparr>],
           outcome = Inr \<lparr>status = 200\<rparr>\<rparr>)"
proof (cases "env ''GH_SECRET''")
  case None
  have e: "kind (scenario_event ''issues'') = ''issues''"
    "action (scenario_event ''issues'') = Some ''opened''"
    "data (scenario_event ''issues'') = scenario_payload"
    by (simp_all add: scenario_event_def)
  have h: "issue_opened_event sample_runtime (scenario_event ''issues'') g =
      post sample_runtime g (JStr ''https://api.example/issues/1/comments'')
        (JObj [(''body'', JStr (message_for ''alice''))])" for g
    using handler_reads_fields [of "scenario_event ''issues''" _ _ sample_runtime g]
    by (simp add: e scenario_paths)
  have p: "post_raises sample_runtime c = None" for c
    by (simp add: sample_runtime_def)
  show ?thesis
    by (simp add: main_def None scenario_from_http dispatch_def fetch_router e h post_def p Let_def)
next
  case (Some k)
  then show ?thesis
    by (simp add: main_def from_http_def verify_def scenario_request_def)
qed

section \<open>The claims\<close>



text \<open>
  C2. For every event whose (kind, action) pair has no registered handler, dispatch
  returns without raising, invokes nothing and makes no outbound call; and when that event
  is the one built from the request, the endpoint responds 200.
\<close>

theorem unhandled_event_is_ignored:
  assumes "(kind ev, action ev) \<notin> fst ` set router"
  shows "dispatch (callback_body rt) router ev gh = \<lparr>invoked = [], posts = [], outcome = Inr ()\<rparr>
    \<and> (from_http rt (headers req) (raw_body req) (env ''GH_SECRET'') = Inr ev \<longrightarrow>
         main rt env req = \<lparr>invoked = [], posts = [], outcome = Inr \<lparr>status = 200\<rparr>\<rparr>)"
proof -
  from assms have "\<not> (kind ev = ''issues'' \<and> action ev = Some ''opened'')"
    by (auto simp: router_def register_def)
  then have f: "fetch router ev = None"
    by (auto simp: fetch_router)
  have d: "dispatch (callback_body rt) router ev g =
      \<lparr>invoked = [], posts = [], outcome = Inr ()\<rparr>" for g
    by (simp add: dispatch_def f)
  show ?thesis
    by (simp add: d main_def Let_def)
qed

theorem unhandled_event_is_ignored_witness:
  "dispatch (callback_body sample_runtime) router (scenario_event ''pull_request'')
      \<lparr>requester = ''dandelion-vn'', oauth_token = None\<rparr>
     = \<lparr>invoked = [], posts = [], outcome = Inr ()\<rparr>
   \<and> main sample_runtime no_environ (scenario_request ''pull_request'')
     = \<lparr>invoked = [], posts = [], outcome = Inr \<lparr>status = 200\<rparr>\<rparr>"
proof -
  have n: "(kind (scenario_event ''pull_request''), action (scenario_event ''pull_request''))
      \<notin> fst ` set router"
    by (simp add: scenario_event_def router_def register_def)
  have s: "no_environ ''GH_SECRET'' = None"
    by (simp add: no_environ_def)
  show ?thesis
    using unhandled_event_is_ignored [OF n, of sample_runtime
        "\<lparr>requester = ''dandelion-vn'', oauth_token = None\<rparr>"
        "scenario_request ''pull_request''" no_environ]
    by (simp add: s scenario_from_http)
qed

text \<open>
  C3. For every request whose signature header is missing or differs from the signature
  computed over the body while a secret is configured, and for every request that
  supplies a signature while none is configured, building the event raises the
  authentication error and the endpoint raises it before the router is reached: no
  handler is invoked, no outbound call is made, and no response with status 200 is
  returned.
\<close>

theorem bad_signature_never_reaches_router:
  assumes "(env ''GH_SECRET'' = Some k
            \<and> headers req ''x-hub-signature'' \<noteq> Some (hmac_signature rt k (raw_body req)))
         \<or> (env ''GH_SECRET'' = None \<and> headers req ''x-hub-signature'' = Some s)"
  shows "from_http rt (headers req) (raw_body req) (env ''GH_SECRET'') = Inl AuthenticationError
    \<and> main rt env req = \<lparr>invoked = [], posts = [], outcome = Inl AuthenticationError\<rparr>"
proof -
  from assms
  have "verify rt (raw_body req) (headers req ''x-hub-signature'') (env ''GH_SECRET'')
      = Inl AuthenticationError"
    by (auto simp: verify_def split: option.splits)
  then have f: "from_http rt (headers req) (raw_body req) (env ''GH_SECRET'')
      = Inl AuthenticationError"
    by (simp add: from_http_def)
  then show ?thesis
    by (simp add: main_def Let_def)
qed

theorem bad_signature_never_reaches_router_witness:
  "main sample_runtime (no_environ(''GH_SECRET'' \<mapsto> ''s3cret'')) (scenario_request ''issues'')
     = \<lparr>invoked = [], posts = [], outcome = Inl AuthenticationError\<rparr>
   \<and> main sample_runtime (no_environ(''GH_SECRET'' \<mapsto> ''s3cret''))
       \<lparr>headers = [''x-github-event'' \<mapsto> ''issues'', ''x-github-delivery'' \<mapsto> ''d1'',
                   ''x-hub-signature'' \<mapsto> ''sha1=forged''],
        raw_body = scenario_body\<rparr>
     = \<lparr>invoked = [], posts = [], outcome = Inl AuthenticationError\<rparr>"
proof -
  have a: "main sample_runtime (no_environ(''GH_SECRET'' \<mapsto> ''s3cret''))
      (scenario_request ''issues'')
     = \<lparr>invoked = [], posts = [], outcome = Inl AuthenticationError\<rparr>"
    using bad_signature_never_reaches_router [of "no_environ(''GH_SECRET'' \<mapsto> ''s3cret'')"
        "''s3cret''" "scenario_request ''issues''" sample_runtime]
    by (simp add: scenario_request_def)
  have b: "main sample_runtime (no_environ(''GH_SECRET'' \<mapsto> ''s3cret''))
       \<lparr>headers = [''x-github-event'' \<mapsto> ''issues'', ''x-github-delivery'' \<mapsto> ''d1'',
                   ''x-hub-signature'' \<mapsto> ''sha1=forged''],
        raw_body = scenario_body\<rparr>
     = \<lparr>invoked = [], posts = [], outcome = Inl AuthenticationError\<rparr>"
    using bad_signature_never_reaches_router [of "no_environ(''GH_SECRET'' \<mapsto> ''s3cret'')"
        "''s3cret''"
        "\<lparr>headers = [''x-github-event'' \<mapsto> ''issues'', ''x-github-delivery'' \<mapsto> ''d1'',
                   ''x-hub-signature'' \<mapsto> ''sha1=forged''],
          raw_body = scenario_body\<rparr>" sample_runtime]
    by (simp add: sample_runtime_def)
  from a b show ?thesis by simp
qed

text \<open>
  C5, as stated: verification never succeeds without a secret. With \<open>GH_SECRET\<close> unset and
  no signature header, verification succeeds and the endpoint answers 200.
\<close>

theorem verification_without_secret_counterexample:
  "verify sample_runtime scenario_body None None = Inr ()
   \<and> outcome (main sample_runtime no_environ (scenario_request ''pull_request''))
       = Inr \<lparr>status = 200\<rparr>"
proof -
  have "main sample_runtime no_environ (scenario_request ''pull_request'')
      = \<lparr>invoked = [], posts = [], outcome = Inr \<lparr>status = 200\<rparr>\<rparr>"
    by (simp add: main_def no_environ_def scenario_from_http dispatch_def fetch_router
        scenario_event_def)
  then show ?thesis
    by (simp add: verify_def)
qed

text \<open>
  C5, amended. Verification fails with the authentication error whenever a secret is
  configured and the supplied signature is missing or differs from the computed one, and
  whenever a signature is supplied while no secret is configured. With the secret unset
  and no signature supplied, the check is skipped and verification succeeds.
\<close>

theorem verification_failures:
  "(secret = Some k \<and> sg \<noteq> Some (hmac_signature rt k b) \<longrightarrow>
      verify rt b sg secret = Inl AuthenticationError)
 \<and> (secret = None \<and> sg = Some s \<longrightarrow> verify rt b sg secret = Inl AuthenticationError)
 \<and> (secret = None \<and> sg = None \<longrightarrow> verify rt b sg secret = Inr ())"
  by (auto simp: verify_def split: option.splits)

theorem verification_failures_witness:
  "verify sample_runtime scenario_body (Some ''sha1=forged'') (Some ''s3cret'')
     = Inl AuthenticationError
   \<and> verify sample_runtime scenario_body (Some ''sha1=forged'') None = Inl AuthenticationError
   \<and> verify sample_runtime scenario_body None None = Inr ()"
proof -
  have a: "verify sample_runtime scenario_body (Some ''sha1=forged'') (Some ''s3cret'')
     = Inl AuthenticationError"
    using verification_failures [of "Some ''s3cret''" "''s3cret''" "Some ''sha1=forged''"
        sample_runtime scenario_body]
    by (simp add: sample_runtime_def)
  have b: "verify sample_runtime scenario_body (Some ''sha1=forged'') None
     = Inl AuthenticationError"
    using verification_failures [of None _ "Some ''sha1=forged''" sample_runtime scenario_body
        "''sha1=forged''"]
    by simp
  have c: "verify sample_runtime scenario_body None None = Inr ()"
    using verification_failures [of None _ None sample_runtime scenario_body]
    by simp
  from a b c show ?thesis by simp
qed

text \<open>
  C6. For every event of kind \<open>issues\<close> with action \<open>opened\<close> whose payload lacks
  \<open>issue.comments_url\<close> or \<open>issue.user.login\<close>, the handler raises the exception of the
  failing subscript (the specification's \<open>SchemaError\<close>) before any outbound call;
  dispatch propagates it, and so does the endpoint, which returns no response.
\<close>

theorem missing_field_propagates:
  assumes "kind ev = ''issues''" and "action ev = Some ''opened''"
    and "path (data ev) [''issue'', ''comments_url''] = None
         \<or> path (data ev) [''issue'', ''user'', ''login''] = None"
  shows "\<exists>e. schema_error e
      \<and> issue_opened_event rt ev gh = ([], Inl e)
      \<and> dispatch (callback_body rt) router ev gh =
          \<lparr>invoked = [Issue_opened_event], posts = [], outcome = Inl e\<rparr>
      \<and> (from_http rt (headers req) (raw_body req) (env ''GH_SECRET'') = Inr ev \<longrightarrow>
          main rt env req = \<lparr>invoked = [Issue_opened_event], posts = [], outcome = Inl e\<rparr>)"
proof -
  from handler_fails [OF assms(3)] obtain e where e: "schema_error e"
    and h: "\<And>g. issue_opened_event rt ev g = ([], Inl e)"
    by blast
  have d: "dispatch (callback_body rt) router ev g =
      \<lparr>invoked = [Issue_opened_event], posts = [], outcome = Inl e\<rparr>" for g
    by (simp add: dispatch_def fetch_router assms(1,2) h)
  have "from_http rt (headers req) (raw_body req) (env ''GH_SECRET'') = Inr ev \<longrightarrow>
      main rt env req = \<lparr>invoked = [Issue_opened_event], posts = [], outcome = Inl e\<rparr>"
    by (simp add: main_def d Let_def)
  with e h d show ?thesis by blast
qed

theorem missing_field_propagates_witness:
  "schema_error (KeyError ''issue'')
   \<and> dispatch (callback_body sample_runtime) router bare_event
         \<lparr>requester = ''dandelion-vn'', oauth_token = None\<rparr>
       = \<lparr>invoked = [Issue_opened_event], posts = [], outcome = Inl (KeyError ''issue'')\<rparr>
   \<and> main sample_runtime no_environ bare_request
       = \<lparr>invoked = [Issue_opened_event], posts = [], outcome = Inl (KeyError ''issue'')\<rparr>"
proof -
  have k: "kind bare_event = ''issues''"
    and a: "action bare_event = Some ''opened''"
    and p: "path (data bare_event) [''issue'', ''comments_url''] = None
      \<or> path (data bare_event) [''issue'', ''user'', ''login''] = None"
    by (simp_all add: bare_event_def bare_payload_def)
  have f: "from_http sample_runtime (headers bare_request) (raw_body bare_request)
      (no_environ ''GH_SECRET'') = Inr bare_event"
    by (simp add: bare_from_http no_environ_def)
  have h: "issue_opened_event sample_runtime bare_event
      \<lparr>requester = ''dandelion-vn'', oauth_token = None\<rparr> = ([], Inl (KeyError ''issue''))"
    by (simp add: issue_opened_event_def bare_event_def bare_payload_def)
  from missing_field_propagates [OF k a p, of sample_runtime
      "\<lparr>requester = ''dandelion-vn'', oauth_token = None\<rparr>" bare_request no_environ]
  obtain e where "schema_error e"
    and "issue_opened_event sample_runtime bare_event
      \<lparr>requester = ''dandelion-vn'', oauth_token = None\<rparr> = ([], Inl e)"
    and "dispatch (callback_body sample_runtime) router bare_event
      \<lparr>requester = ''dandelion-vn'', oauth_token = None\<rparr>
       = \<lparr>invoked = [Issue_opened_event], posts = [], outcome = Inl e\<rparr>"
    and "from_http sample_runtime (headers bare_request) (raw_body bare_request)
        (no_environ ''GH_SECRET'') = Inr bare_event \<longrightarrow>
      main sample_runtime no_environ bare_request
       = \<lparr>invoked = [Issue_opened_event], posts = [], outcome = Inl e\<rparr>"
    by blast
  with f h show ?thesis by simp
qed

text \<open>
  C7. For every request on which building the event (verification and parsing) and the
  dispatch both end without raising, the endpoint returns the response with status 200,
  whether or not a handler matched.
\<close>

theorem completed_dispatch_gives_200:
  assumes "from_http rt (headers req) (raw_body req) (env ''GH_SECRET'') = Inr ev"
    and "outcome (dispatch (callback_body rt) router ev
           \<lparr>requester = ''dandelion-vn'', oauth_token = env ''GH_AUTH''\<rparr>) = Inr ()"
  shows "outcome (main rt env req) = Inr \<lparr>status = 200\<rparr>"
  using assms by (simp add: main_def Let_def)

theorem completed_dispatch_gives_200_witness:
  "outcome (main sample_runtime no_environ (scenario_request ''issues'')) = Inr \<lparr>status = 200\<rparr>
   \<and> invoked (main sample_runtime no_environ (scenario_request ''issues'')) = [Issue_opened_event]
   \<and> outcome (main sample_runtime no_environ (scenario_request ''pull_request''))
       = Inr \<lparr>status = 200\<rparr>
   \<and> invoked (main sample_runtime no_environ (scenario_request ''pull_request'')) = []"
proof -
  have f: "from_http sample_runtime (headers (scenario_request k)) (raw_body (scenario_request k))
      (no_environ ''GH_SECRET'') = Inr (scenario_event k)" for k
    by (simp add: scenario_from_http no_environ_def)
  have i: "main sample_runtime no_environ (scenario_request ''issues'') =
      \<lparr>invoked = [Issue_opened_event],
       posts = [\<lparr>client = \<lparr>requester = ''dandelion-vn'', oauth_token = None\<rparr>,
                 target = JStr ''https://api.example/issues/1/comments'',
                 body = JObj [(''body'', JStr (message_for ''alice''))]\<rparr>],
       outcome = Inr \<lparr>status = 200\<rparr>\<rparr>"
    by (simp add: scenario_main_issues no_environ_def)
  have d1: "outcome (dispatch (callback_body sample_runtime) router (scenario_event ''issues'')
      \<lparr>requester = ''dandelion-vn'', oauth_token = no_environ ''GH_AUTH''\<rparr>) = Inr ()"
    using i by (simp add: main_def f Let_def split: sum.splits)
  have d2: "dispatch (callback_body sample_runtime) router (scenario_event ''pull_request'') g
      = \<lparr>invoked = [], posts = [], outcome = Inr ()\<rparr>" for g
    by (simp add: dispatch_def fetch_router scenario_event_def)
  have "outcome (main sample_runtime no_environ (scenario_request ''issues''))
      = Inr \<lparr>status = 200\<rparr>"
    using completed_dispatch_gives_200 [of sample_runtime "scenario_request ''issues''"
        no_environ "scenario_event ''issues''"] f d1
    by simp
  moreover have "outcome (main sample_runtime no_environ (scenario_request ''pull_request''))
      = Inr \<lparr>status = 200\<rparr>"
    using completed_dispatch_gives_200 [of sample_runtime "scenario_request ''pull_request''"
        no_environ "scenario_event ''pull_request''"] f
    by (simp add: d2)
  moreover have "invoked (main sample_runtime no_environ (scenario_request ''pull_request'')) = []"
    by (simp add: main_def f d2 Let_def)
  ultimately show ?thesis using i by simp
qed



text \<open>
  C10. At startup, when \<open>PORT\<close> is set to a text on which the integer conversion raises,
  the program raises that \<open>ValueError\<close> before the server is started and serves no
  request; when \<open>PORT\<close> is unset, the server is started with the port \<open>None\<close>.
\<close>

theorem startup_port:
  "(env ''PORT'' = None \<longrightarrow> startup rt env = Inr None)
 \<and> (env ''PORT'' = Some p \<and> py_int rt p = None \<longrightarrow>
      startup rt env = Inl ValueError \<and> serve rt env reqs = Inl ValueError)"
  by (simp add: startup_def serve_def)

theorem startup_port_witness:
  "startup sample_runtime no_environ = Inr None
   \<and> startup sample_runtime (no_environ(''PORT'' \<mapsto> ''http'')) = Inl ValueError
   \<and> serve sample_runtime (no_environ(''PORT'' \<mapsto> ''http''))
       [scenario_request ''issues''] = Inl ValueError"
proof -
  have a: "startup sample_runtime no_environ = Inr None"
    using startup_port [of no_environ sample_runtime] by (simp add: no_environ_def)
  have b: "startup sample_runtime (no_environ(''PORT'' \<mapsto> ''http'')) = Inl ValueError
    \<and> serve sample_runtime (no_environ(''PORT'' \<mapsto> ''http''))
       [scenario_request ''issues''] = Inl ValueError"
    using startup_port [of "no_environ(''PORT'' \<mapsto> ''http'')" sample_runtime "''http''"
        "[scenario_request ''issues'']"]
    by (simp add: sample_runtime_def)
  from a b show ?thesis by simp
qed

end
